theory Spec2Isabelle
  imports Main
begin

section \<open>Access and subscription control of the Mistral bot (mistral\_ai.py)\<close>

text \<open>
  The module keeps one table \<open>users\<close> in an SQLite file and decides, per incoming
  message, whether the sender may use the completion service: either through a paid
  subscription window or through a daily quota of free requests. This theory embeds the
  functions \<open>reset_daily_limits\<close>, \<open>check_invoice_status\<close>, \<open>check_access\<close>,
  \<open>get_remaining_requests\<close>, \<open>update_subscription\<close> and the handler
  \<open>check_payment\<close>: each function takes the table before the call and returns the
  table after it. \<open>check_access\<close> sends two statements to the database, a \<open>SELECT\<close>
  and later an \<open>INSERT\<close> or \<open>UPDATE\<close>, each on the connection the call opened for
  itself and with an \<open>await\<close> between them; it is embedded both as one whole call and
  as its two statements, and \<open>running\<close> lets the statements of several calls
  interleave.
\<close>

subsection \<open>Clock values\<close>

text \<open>
  A naive \<open>datetime\<close> is represented by the number of microseconds since
  0001-01-01T00:00:00, the first instant Python's \<open>datetime\<close> can hold; the last one
  is 9999-12-31T23:59:59.999999, which is day 3652059 of the proleptic calendar.
  The column \<open>subscribed_until\<close> stores \<open>isoformat()\<close> text and is read back with
  \<open>fromisoformat\<close>; the two are inverse on naive datetimes, so the model keeps the
  datetime itself. \<open>strftime("%Y-%m-%d")\<close> renders the calendar day, one text per day,
  so a date text is represented by its day number and \<open>!=\<close> on the texts is
  inequality of day numbers.
\<close>

type_synonym datetime = int
type_synonym date = int

definition usec_per_day :: int where
  "usec_per_day = 86400000000"

definition datetime_max :: datetime where
  "datetime_max = 3652059 * usec_per_day - 1"

definition datetime_ok :: "datetime \<Rightarrow> bool" where
  "datetime_ok t = (0 \<le> t \<and> t \<le> datetime_max)"

definition strftime_date :: "datetime \<Rightarrow> date" where
  "strftime_date t = t div usec_per_day"

datatype exn =
  OverflowError | ClientError | JsonError | AttributeError | IndexError | IntegrityError

text \<open>
  \<open>timedelta(days=d)\<close> raises \<open>OverflowError\<close> when \<open>d\<close> has magnitude above
  999999999, and \<open>datetime + timedelta\<close> raises it when the sum leaves the range of
  \<open>datetime\<close>.
\<close>

definition timedelta_days :: "int \<Rightarrow> exn + int" where
  "timedelta_days d =
     (if \<bar>d\<bar> > 999999999 then Inl OverflowError else Inr (d * usec_per_day))"

definition datetime_add :: "datetime \<Rightarrow> int \<Rightarrow> exn + datetime" where
  "datetime_add t delta =
     (if datetime_ok (t + delta) then Inr (t + delta) else Inl OverflowError)"

subsection \<open>The table \<open>users\<close>\<close>

text \<open>
  One row per \<open>user_id\<close> (the primary key). \<open>subscribed_until\<close>,
  \<open>last_request_date\<close> and \<open>invoice_id\<close> are nullable text columns;
  \<open>requests_today\<close> is an integer that every statement of the module writes with a
  number.
\<close>

record user_row =
  subscribed_until :: "datetime option"
  last_request_date :: "date option"
  requests_today :: int
  invoice_id :: "string option"

type_synonym db = "int \<rightharpoonup> user_row"

definition MAX_FREE_REQUESTS_PER_DAY :: int where
  "MAX_FREE_REQUESTS_PER_DAY = 10"

text \<open>\<open>UPDATE users SET requests_today = 0\<close>: every row, no \<open>WHERE\<close>.\<close>

definition reset_daily_limits :: "db \<Rightarrow> db" where
  "reset_daily_limits users =
     (\<lambda>user_id. map_option (\<lambda>row. row\<lparr>requests_today := 0\<rparr>) (users user_id))"

subsection \<open>\<open>check_access\<close>\<close>

text \<open>
  The function reads the clock twice: \<open>now0\<close> is the reading that gives \<open>today\<close>
  (first statement), \<open>now1\<close> the reading compared with \<open>subscribed_until\<close>.
  A missing row is inserted with \<open>last_request_date = today\<close> and
  \<open>requests_today = 1\<close>; the other columns take their default \<open>NULL\<close>.
\<close>

definition check_access :: "datetime \<Rightarrow> datetime \<Rightarrow> int \<Rightarrow> db \<Rightarrow> bool \<times> db" where
  "check_access now0 now1 user_id users =
     (let today = strftime_date now0 in
      case users user_id of
        None \<Rightarrow>
          (True, users(user_id \<mapsto>
             \<lparr>subscribed_until = None, last_request_date = Some today,
              requests_today = 1, invoice_id = None\<rparr>))
      | Some user \<Rightarrow>
          if (case subscribed_until user of None \<Rightarrow> False | Some until \<Rightarrow> now1 < until)
          then (True, users)
          else if last_request_date user \<noteq> Some today
          then (True, users(user_id \<mapsto> user\<lparr>last_request_date := Some today, requests_today := 1\<rparr>))
          else if requests_today user < MAX_FREE_REQUESTS_PER_DAY
          then (True, users(user_id \<mapsto> user\<lparr>requests_today := requests_today user + 1\<rparr>))
          else (False, users))"

subsection \<open>\<open>check_access\<close>, statement by statement\<close>

text \<open>
  The definition above is the call run with nothing between its statements. In the
  source the row is fetched by a \<open>SELECT\<close>, the function awaits, and the decision is
  then taken on the fetched row while the write goes to the table as it is by then:
  \<^item> the \<open>INSERT\<close> of a new user fails on the primary key with \<open>IntegrityError\<close> when
    the row has appeared in the meantime;
  \<^item> \<open>UPDATE users SET last_request_date = ?, requests_today = 1 WHERE user_id = ?\<close>
    overwrites the two columns of the current row;
  \<^item> \<open>UPDATE users SET requests_today = requests_today + 1 WHERE user_id = ?\<close> adds
    one to the current value of the column, not to the fetched one.
  \<open>sql_update\<close> is an \<open>UPDATE ... WHERE user_id = ?\<close>: it changes the row of the user
  when there is one.
\<close>

definition sql_update :: "db \<Rightarrow> int \<Rightarrow> (user_row \<Rightarrow> user_row) \<Rightarrow> db" where
  "sql_update users user_id f =
     (case users user_id of
        None \<Rightarrow> users
      | Some row \<Rightarrow> users(user_id \<mapsto> f row))"

definition check_access_select :: "int \<Rightarrow> db \<Rightarrow> user_row option" where
  "check_access_select user_id users = users user_id"

definition check_access_write ::
  "datetime \<Rightarrow> datetime \<Rightarrow> int \<Rightarrow> user_row option \<Rightarrow> db \<Rightarrow> (exn + bool) \<times> db" where
  "check_access_write now0 now1 user_id fetched users =
     (let today = strftime_date now0 in
      case fetched of
        None \<Rightarrow>
          (case users user_id of
             None \<Rightarrow>
               (Inr True, users(user_id \<mapsto>
                  \<lparr>subscribed_until = None, last_request_date = Some today,
                   requests_today = 1, invoice_id = None\<rparr>))
           | Some row \<Rightarrow> (Inl IntegrityError, users))
      | Some user \<Rightarrow>
          if (case subscribed_until user of None \<Rightarrow> False | Some until \<Rightarrow> now1 < until)
          then (Inr True, users)
          else if last_request_date user \<noteq> Some today
          then (Inr True,
                sql_update users user_id
                  (\<lambda>row. row\<lparr>last_request_date := Some today, requests_today := 1\<rparr>))
          else if requests_today user < MAX_FREE_REQUESTS_PER_DAY
          then (Inr True,
                sql_update users user_id
                  (\<lambda>row. row\<lparr>requests_today := requests_today row + 1\<rparr>))
          else (Inr False, users))"

subsection \<open>\<open>get_remaining_requests\<close>\<close>

text \<open>The only statement sent to the database is a \<open>SELECT\<close>; the table is returned as it came.\<close>

definition get_remaining_requests :: "datetime \<Rightarrow> int \<Rightarrow> db \<Rightarrow> int \<times> db" where
  "get_remaining_requests now user_id users =
     (let today = strftime_date now in
      case users user_id of
        None \<Rightarrow> (MAX_FREE_REQUESTS_PER_DAY, users)
      | Some user \<Rightarrow>
          if last_request_date user \<noteq> Some today
          then (MAX_FREE_REQUESTS_PER_DAY, users)
          else (max 0 (MAX_FREE_REQUESTS_PER_DAY - requests_today user), users))"

subsection \<open>\<open>update_subscription\<close>\<close>

text \<open>
  The end of the window is computed first; when that raises, no statement reaches the
  database. The \<open>UPDATE ... WHERE user_id = ?\<close> changes the row of the user when there
  is one and nothing otherwise.
\<close>

definition update_subscription :: "datetime \<Rightarrow> int \<Rightarrow> int \<Rightarrow> db \<Rightarrow> exn option \<times> db" where
  "update_subscription now user_id months users =
     (case timedelta_days (30 * months) of
        Inl e \<Rightarrow> (Some e, users)
      | Inr delta \<Rightarrow>
          (case datetime_add now delta of
             Inl e \<Rightarrow> (Some e, users)
           | Inr until \<Rightarrow>
               (None, case users user_id of
                        None \<Rightarrow> users
                      | Some user \<Rightarrow> users(user_id \<mapsto> user\<lparr>subscribed_until := Some until\<rparr>))))"

subsection \<open>The admission algorithm as the specification words it\<close>



subsection \<open>The payment provider's answer\<close>

text \<open>
  What \<open>resp.json()\<close> can hand back: a JSON value. A number keeps the text of its
  literal. An object is the list of the items of the parsed dictionary, and
  \<open>dict.get\<close> looks a key up among them.
\<close>

datatype json =
    JNull
  | JBool bool
  | JNumber string
  | JString string
  | JArray "json list"
  | JObject "(string \<times> json) list"

text \<open>
  The request itself can fail (\<open>Unreachable\<close>: connection refused, timeout, TLS), the
  body can fail to parse as JSON (\<open>NotJson\<close>), or a JSON value arrives.
\<close>

datatype http_reply = Unreachable | NotJson | Body json

text \<open>\<open>x.get(key, default)\<close>; an object that is not a dictionary has no \<open>get\<close>.\<close>

definition dict_get :: "json \<Rightarrow> string \<Rightarrow> json \<Rightarrow> exn + json" where
  "dict_get x key dflt =
     (case x of
        JObject items \<Rightarrow> Inr (case map_of items key of None \<Rightarrow> dflt | Some v \<Rightarrow> v)
      | _ \<Rightarrow> Inl AttributeError)"

text \<open>
  \<open>check_invoice_status\<close> has no handler around the request:
  \<open>data.get("result", {}).get("status", "error")\<close> is evaluated on whatever
  arrived, and an exception of the session leaves the function.
\<close>

definition check_invoice_status :: "http_reply \<Rightarrow> exn + json" where
  "check_invoice_status resp =
     (case resp of
        Unreachable \<Rightarrow> Inl ClientError
      | NotJson \<Rightarrow> Inl JsonError
      | Body data \<Rightarrow>
          (case dict_get data ''result'' (JObject []) of
             Inl e \<Rightarrow> Inl e
           | Inr result \<Rightarrow> dict_get result ''status'' (JString ''error'')))"

text \<open>\<open>str.split(sep)\<close> with a one-character separator: empty pieces are kept.\<close>

fun split :: "string \<Rightarrow> char \<Rightarrow> string list" where
  "split [] sep = [[]]"
| "split (c # cs) sep =
     (if c = sep then [] # split cs sep
      else (case split cs sep of
              [] \<Rightarrow> [[c]]
            | piece # pieces \<Rightarrow> (c # piece) # pieces))"

definition getitem :: "'a list \<Rightarrow> nat \<Rightarrow> exn + 'a" where
  "getitem xs i = (if i < length xs then Inr (xs ! i) else Inl IndexError)"

subsection \<open>The handler \<open>check_payment\<close>\<close>

text \<open>
  A callback query carries optional \<open>data\<close>, an optional message (only its presence
  matters here) and an optional sender. The handler answers the callback and sends one
  of three fixed texts: that the user was not found, that the subscription is active,
  or that the payment was not found. The provider is a function from the invoice
  identifier in the request to its answer; \<open>now\<close> is the clock reading of
  \<open>update_subscription\<close>. The result is the exception that left the handler, if any,
  what was sent, and the table.
\<close>

record callback_query =
  data :: "string option"
  message :: bool
  from_user :: "int option"

datatype notice = RequestError | UserNotFound | SubscriptionActivated | PaymentNotFound

datatype sent = CallbackAnswer "notice option" | MessageAnswer notice

definition check_payment ::
  "(string \<Rightarrow> http_reply) \<Rightarrow> datetime \<Rightarrow> callback_query \<Rightarrow> db \<Rightarrow> exn option \<times> sent list \<times> db" where
  "check_payment provider now callback users =
     (case data callback of
        None \<Rightarrow> (None, [CallbackAnswer (Some RequestError)], users)
      | Some d \<Rightarrow>
          if \<not> message callback then (None, [CallbackAnswer (Some RequestError)], users)
          else
            (case getitem (split d CHR ''_'') 2 of
               Inl e \<Rightarrow> (Some e, [CallbackAnswer None], users)
             | Inr invoice \<Rightarrow>
                 (case check_invoice_status (provider invoice) of
                    Inl e \<Rightarrow> (Some e, [CallbackAnswer None], users)
                  | Inr status \<Rightarrow>
                      if \<not> message callback then (None, [CallbackAnswer None], users)
                      else if status = JString ''paid'' then
                        (case from_user callback of
                           None \<Rightarrow> (None, [CallbackAnswer None, MessageAnswer UserNotFound], users)
                         | Some uid \<Rightarrow>
                             (case update_subscription now uid 1 users of
                                (Some e, users') \<Rightarrow> (Some e, [CallbackAnswer None], users')
                              | (None, users') \<Rightarrow>
                                  (None, [CallbackAnswer None, MessageAnswer SubscriptionActivated],
                                   users')))
                      else (None, [CallbackAnswer None, MessageAnswer PaymentNotFound], users))))"

subsection \<open>The quota bound and the tables a run can reach\<close>





subsection \<open>Concrete values used in the examples\<close>

text \<open>
  \<open>day n\<close> is midnight of day \<open>n\<close>; day 739000 lies in the year 2024. User 42 has
  used nine free requests on day 739000; user 7 has no row. \<open>ex_subscriber\<close> has an
  exhausted quota and a subscription that ends ten days later; \<open>ex_renewing\<close> has a
  subscription that still runs for twenty days.
\<close>

definition day :: "int \<Rightarrow> datetime" where
  "day n = n * usec_per_day"

definition ex_row :: user_row where
  "ex_row = \<lparr>subscribed_until = None, last_request_date = Some 739000,
             requests_today = 9, invoice_id = None\<rparr>"

definition ex_users :: db where
  "ex_users = [42 \<mapsto> ex_row]"



definition ex_subscriber :: user_row where
  "ex_subscriber = \<lparr>subscribed_until = Some (day 739010), last_request_date = Some 739000,
                    requests_today = 10, invoice_id = None\<rparr>"

definition ex_renewing :: user_row where
  "ex_renewing = \<lparr>subscribed_until = Some (day 739020), last_request_date = Some 739000,
                  requests_today = 4, invoice_id = None\<rparr>"

definition ex_callback :: callback_query where
  "ex_callback = \<lparr>data = Some ''check_payment_INV-7Q2K'', message = True, from_user = Some 42\<rparr>"

text \<open>A provider that reports every invoice paid, and one that cannot be reached.\<close>

definition paid_provider :: "string \<Rightarrow> http_reply" where
  "paid_provider invoice =
     Body (JObject [(''status'', JString ''success''),
                    (''result'', JObject [(''uuid'', JString invoice), (''status'', JString ''paid'')])])"

definition down_provider :: "string \<Rightarrow> http_reply" where
  "down_provider invoice = Unreachable"

section \<open>Helper facts\<close>

lemma strftime_date_day: "strftime_date (day n) = n"
  by (simp add: strftime_date_def day_def usec_per_day_def)

lemma strftime_date_day_plus:
  "0 \<le> k \<Longrightarrow> k < usec_per_day \<Longrightarrow> strftime_date (day n + k) = n"
  by (simp add: strftime_date_def day_def usec_per_day_def)


lemma paid_status: "check_invoice_status (paid_provider invoice) = Inr (JString ''paid'')"
  by (simp add: check_invoice_status_def paid_provider_def dict_get_def)

lemma update_subscription_no_row:
  "users user_id = None \<Longrightarrow> snd (update_subscription now user_id months users) = users"
  by (simp add: update_subscription_def split: sum.splits)

text \<open>The handler writes the table through \<open>update_subscription\<close> for the sender or not at all.\<close>

lemma check_payment_table:
  "snd (snd (check_payment provider now callback users)) = users \<or>
   (\<exists>uid. from_user callback = Some uid \<and>
      snd (snd (check_payment provider now callback users))
        = snd (update_subscription now uid 1 users))"
  by (auto simp: check_payment_def split: option.splits sum.splits prod.splits)

section \<open>Admission\<close>






text \<open>
  A new user whose row appears between the fetch and the \<open>INSERT\<close> gets no decision:
  the second \<open>INSERT\<close> raises.
\<close>

lemma second_insert_raises:
  "check_access_write (day 739000) (day 739000) 7 (check_access_select 7 ex_users)
     (snd (check_access_write (day 739000) (day 739000) 7 (check_access_select 7 ex_users) ex_users))
     = (Inl IntegrityError,
        ex_users(7 \<mapsto> \<lparr>subscribed_until = None, last_request_date = Some 739000,
                         requests_today = 1, invoice_id = None\<rparr>))"
  by (simp add: check_access_write_def check_access_select_def Let_def ex_users_def
      strftime_date_day)

text \<open>
  The two outcomes at the end of the ordering: a user without an active subscription who
  has used up today's quota is denied and nothing is written, and a user whose last
  counted day is not today is admitted with a count of one, however many requests were
  counted before.
\<close>

lemma exhausted_quota_denied:
  assumes "users user_id = Some user"
    and "subscribed_until user = None \<or> (\<exists>until. subscribed_until user = Some until \<and> until \<le> now1)"
    and "last_request_date user = Some (strftime_date now0)"
    and "MAX_FREE_REQUESTS_PER_DAY \<le> requests_today user"
  shows "check_access now0 now1 user_id users = (False, users)"
  using assms by (auto simp: check_access_def Let_def)

lemma rollover_counts_one:
  assumes "users user_id = Some user"
    and "subscribed_until user = None"
    and "last_request_date user \<noteq> Some (strftime_date now0)"
  shows "check_access now0 now1 user_id users =
           (True, users(user_id \<mapsto>
              user\<lparr>last_request_date := Some (strftime_date now0), requests_today := 1\<rparr>))"
  using assms by (simp add: check_access_def Let_def)

text \<open>
  Claim C6. A user whose row has \<open>subscribed_until\<close> set and strictly later than the
  clock reading is admitted whatever \<open>requests_today\<close> holds, and the call leaves the
  whole table, hence the whole row, as it was.
\<close>

theorem subscriber_admitted_unchanged:
  assumes "users user_id = Some user"
    and "subscribed_until user = Some until"
    and "now1 < until"
  shows "check_access now0 now1 user_id users = (True, users)"
  using assms by (simp add: check_access_def Let_def)

theorem subscriber_admitted_unchanged_witness:
  "day 739000 + 5 < day 739010 \<and>
   check_access (day 739000) (day 739000 + 5) 42 [42 \<mapsto> ex_subscriber]
     = (True, [42 \<mapsto> ex_subscriber])"
  using subscriber_admitted_unchanged [of "[42 \<mapsto> ex_subscriber]" 42 ex_subscriber
      "day 739010" "day 739000 + 5" "day 739000"]
  by (simp add: ex_subscriber_def day_def usec_per_day_def)

text \<open>
  Claim C4, as the code has it. For a user without a row, the first \<open>check_access\<close>
  admits and inserts the row with \<open>last_request_date = today\<close>,
  \<open>requests_today = 1\<close> (the admitted request is already counted), no subscription and
  no invoice. No other operation creates a row: after \<open>get_remaining_requests\<close>,
  \<open>update_subscription\<close> or \<open>reset_daily_limits\<close> the user still has none.
\<close>

theorem first_check_access_creates_counted_row:
  assumes "users user_id = None"
  shows "check_access now0 now1 user_id users =
           (True, users(user_id \<mapsto>
              \<lparr>subscribed_until = None, last_request_date = Some (strftime_date now0),
               requests_today = 1, invoice_id = None\<rparr>))
         \<and> snd (get_remaining_requests now user_id users) user_id = None
         \<and> snd (update_subscription now user_id months users) user_id = None
         \<and> reset_daily_limits users user_id = None"
  using assms
  by (simp add: check_access_def Let_def get_remaining_requests_def update_subscription_def
      reset_daily_limits_def split: sum.splits)

theorem first_check_access_creates_counted_row_witness:
  "check_access (day 739000) (day 739000) 7 ex_users =
     (True, ex_users(7 \<mapsto>
        \<lparr>subscribed_until = None, last_request_date = Some 739000,
         requests_today = 1, invoice_id = None\<rparr>))
   \<and> snd (get_remaining_requests (day 739000) 7 ex_users) 7 = None
   \<and> snd (update_subscription (day 739000) 7 1 ex_users) 7 = None
   \<and> reset_daily_limits ex_users 7 = None"
  using first_check_access_creates_counted_row
    [of ex_users 7 "day 739000" "day 739000" "day 739000" 1]
  by (simp add: ex_users_def strftime_date_day)

text \<open>
  Claim C4 as the specification words it asks for \<open>requestsToday = 0\<close> in the created
  record. On the empty table the row that \<open>check_access\<close> inserts for user 42 holds 1.
\<close>

theorem created_row_counts_one:
  "map_option requests_today (snd (check_access (day 739000) (day 739000) 42 Map.empty) 42) = Some 1
   \<and> map_option requests_today (snd (check_access (day 739000) (day 739000) 42 Map.empty) 42)
       \<noteq> Some 0"
  by (simp add: check_access_def Let_def)

text \<open>
  Claim C7. A user without a row is admitted by the first \<open>check_access\<close>, and
  \<open>get_remaining_requests\<close> read on the same calendar day right after it returns 9.
  In general \<open>get_remaining_requests\<close> returns the full limit of 10 when the user has
  no row or when \<open>last_request_date\<close> is not today, and
  \<open>max(0, 10 - requests_today)\<close> otherwise, and hands the table back untouched.
\<close>

theorem fresh_user_admitted_nine_remaining:
  assumes "users user_id = None" and "strftime_date now = strftime_date now0"
  shows "fst (check_access now0 now1 user_id users) = True
         \<and> fst (get_remaining_requests now user_id (snd (check_access now0 now1 user_id users))) = 9
         \<and> get_remaining_requests t u db =
             ((case db u of
                 None \<Rightarrow> 10
               | Some r \<Rightarrow>
                   if last_request_date r \<noteq> Some (strftime_date t) then 10
                   else max 0 (10 - requests_today r)), db)"
  using assms
  by (simp add: check_access_def get_remaining_requests_def Let_def
      MAX_FREE_REQUESTS_PER_DAY_def split: option.splits)

theorem fresh_user_admitted_nine_remaining_witness:
  "strftime_date (day 739000 + 3000000) = strftime_date (day 739000 + 1000000)
   \<and> fst (check_access (day 739000 + 1000000) (day 739000 + 2000000) 7 ex_users) = True
   \<and> fst (get_remaining_requests (day 739000 + 3000000) 7
            (snd (check_access (day 739000 + 1000000) (day 739000 + 2000000) 7 ex_users))) = 9"
proof -
  have fresh: "ex_users 7 = None"
    by (simp add: ex_users_def)
  have same_day: "strftime_date (day 739000 + 3000000) = strftime_date (day 739000 + 1000000)"
    by (simp add: strftime_date_day_plus usec_per_day_def)
  show ?thesis
    using same_day
      fresh_user_admitted_nine_remaining
        [where users = ex_users and user_id = 7 and now = "day 739000 + 3000000"
           and ?now0.0 = "day 739000 + 1000000" and ?now1.0 = "day 739000 + 2000000"
           and t = "day 739000" and u = 7 and db = ex_users, OF fresh same_day]
    by blast
qed

section \<open>The quota bound\<close>












text \<open>The ninth request of user 42 is followed by the tenth, which reaches the limit.\<close>

lemma incremented_to_limit:
  "map_option requests_today (snd (check_access (day 739000) (day 739000) 42 ex_users) 42) = Some 10"
  by (simp add: check_access_def Let_def ex_users_def ex_row_def strftime_date_day
      MAX_FREE_REQUESTS_PER_DAY_def)







section \<open>The daily reset\<close>

text \<open>
  Claim C9. \<open>reset_daily_limits\<close> sets \<open>requests_today\<close> to 0 in every row and
  changes nothing else of any row (so \<open>last_request_date\<close> and \<open>subscribed_until\<close>
  stay), it neither adds nor removes rows, and running it twice gives the same table as
  running it once.
\<close>

theorem reset_daily_limits_zeroes_idempotent:
  "(\<forall>user_id row. users user_id = Some row \<longrightarrow>
      reset_daily_limits users user_id = Some (row\<lparr>requests_today := 0\<rparr>))
   \<and> dom (reset_daily_limits users) = dom users
   \<and> reset_daily_limits (reset_daily_limits users) = reset_daily_limits users"
proof (intro conjI allI impI)
  show "dom (reset_daily_limits users) = dom users"
    by (auto simp: reset_daily_limits_def dom_def)
  show "reset_daily_limits (reset_daily_limits users) = reset_daily_limits users"
    by (rule ext) (simp add: reset_daily_limits_def option.map_comp comp_def)
qed (simp add: reset_daily_limits_def)

theorem reset_daily_limits_zeroes_idempotent_witness:
  "reset_daily_limits ex_users 42
     = Some \<lparr>subscribed_until = None, last_request_date = Some 739000,
             requests_today = 0, invoice_id = None\<rparr>
   \<and> dom (reset_daily_limits ex_users) = {42}
   \<and> reset_daily_limits (reset_daily_limits ex_users) = reset_daily_limits ex_users"
  using reset_daily_limits_zeroes_idempotent [of ex_users]
  by (simp add: ex_users_def ex_row_def)

section \<open>Extending a subscription\<close>




text \<open>
  The renewing user's window ended on day 739020; after the call on day 739000 it ends
  on day 739030, thirty days after the call, and not on day 739050.
\<close>

lemma renewal_restarts_from_now:
  "map_option subscribed_until
     (snd (update_subscription (day 739000) 42 1 [42 \<mapsto> ex_renewing]) 42)
     = Some (Some (day 739030))"
  by (simp add: update_subscription_def timedelta_days_def datetime_add_def datetime_ok_def
      datetime_max_def day_def usec_per_day_def)

text \<open>
  Outside the range the call raises and writes nothing: a hundred thousand months from
  day 739000 pass the year 9999.
\<close>

lemma update_subscription_overflow:
  "update_subscription (day 739000) 42 100000 [42 \<mapsto> ex_renewing]
     = (Some OverflowError, [42 \<mapsto> ex_renewing])"
  by (simp add: update_subscription_def timedelta_days_def datetime_add_def datetime_ok_def
      datetime_max_def day_def usec_per_day_def)

text \<open>
  Claim C10. For a user without a row, \<open>update_subscription\<close> leaves the table exactly
  as it was, whatever the number of months; so does the whole handler \<open>check_payment\<close>
  when that user is the sender. The row that a later \<open>check_access\<close> inserts for the
  user has no subscription.
\<close>

theorem update_subscription_without_row_changes_nothing:
  assumes "users user_id = None"
  shows "snd (update_subscription now user_id months users) = users
       \<and> (from_user callback = Some user_id \<longrightarrow>
            snd (snd (check_payment provider now callback users)) = users)
       \<and> snd (check_access now0 now1 user_id (snd (update_subscription now user_id months users))) user_id
           = Some \<lparr>subscribed_until = None, last_request_date = Some (strftime_date now0),
                   requests_today = 1, invoice_id = None\<rparr>"
proof -
  have keep: "snd (update_subscription t user_id m users) = users" for t m
    using assms by (rule update_subscription_no_row)
  have "from_user callback = Some user_id \<longrightarrow>
          snd (snd (check_payment provider now callback users)) = users"
    using check_payment_table [of provider now callback users] keep by auto
  moreover have "snd (check_access now0 now1 user_id users) user_id
           = Some \<lparr>subscribed_until = None, last_request_date = Some (strftime_date now0),
                   requests_today = 1, invoice_id = None\<rparr>"
    using assms by (simp add: check_access_def Let_def)
  ultimately show ?thesis by (simp add: keep)
qed

theorem update_subscription_without_row_changes_nothing_witness:
  "snd (update_subscription (day 739000) 7 1 ex_users) = ex_users
   \<and> snd (snd (check_payment paid_provider (day 739000) (ex_callback\<lparr>from_user := Some 7\<rparr>) ex_users))
       = ex_users
   \<and> snd (check_access (day 739001) (day 739001) 7
            (snd (update_subscription (day 739000) 7 1 ex_users))) 7
       = Some \<lparr>subscribed_until = None, last_request_date = Some 739001,
               requests_today = 1, invoice_id = None\<rparr>"
proof -
  have fresh: "ex_users 7 = None"
    by (simp add: ex_users_def)
  have sender: "from_user (ex_callback\<lparr>from_user := Some 7\<rparr>) = Some 7"
    by simp
  have today: "strftime_date (day 739001) = 739001"
    by (rule strftime_date_day)
  show ?thesis
    using sender today
      update_subscription_without_row_changes_nothing
        [where users = ex_users and user_id = 7 and now = "day 739000" and months = 1
           and callback = "ex_callback\<lparr>from_user := Some 7\<rparr>" and provider = paid_provider
           and ?now0.0 = "day 739001" and ?now1.0 = "day 739001", OF fresh]
    by metis
qed

text \<open>
  The handler still tells such a user that the subscription is active: on the empty
  table a paid invoice gives the activation notice and no row.
\<close>

lemma paid_poll_without_row_reports_activation:
  "check_payment paid_provider (day 739000) ex_callback Map.empty
     = (None, [CallbackAnswer None, MessageAnswer SubscriptionActivated], Map.empty)"
  by (simp add: check_payment_def ex_callback_def getitem_def paid_status
      update_subscription_def timedelta_days_def datetime_add_def datetime_ok_def
      datetime_max_def day_def usec_per_day_def)

section \<open>Polling a payment\<close>




text \<open>
  What holds of claim C3: the activation notice is sent only when the provider's status
  is the text \<open>"paid"\<close>, and any other status that \<open>check_invoice_status\<close> returns
  gives the notice that the payment was not found and leaves the table alone.
\<close>

lemma activation_only_on_literal_paid:
  assumes "MessageAnswer SubscriptionActivated
             \<in> set (fst (snd (check_payment provider now callback users)))"
  shows "\<exists>d invoice. data callback = Some d \<and> getitem (split d CHR ''_'') 2 = Inr invoice
           \<and> check_invoice_status (provider invoice) = Inr (JString ''paid'')"
  using assms
  by (auto simp: check_payment_def split: option.splits sum.splits prod.splits if_splits)

lemma other_status_reports_payment_not_found:
  assumes "data callback = Some d" and "message callback"
    and "getitem (split d CHR ''_'') 2 = Inr invoice"
    and "check_invoice_status (provider invoice) = Inr status"
    and "status \<noteq> JString ''paid''"
  shows "check_payment provider now callback users
           = (None, [CallbackAnswer None, MessageAnswer PaymentNotFound], users)"
  using assms by (simp add: check_payment_def)

text \<open>An answer without a \<open>result\<close> object has the status \<open>"error"\<close>.\<close>

lemma missing_result_is_error:
  "check_invoice_status (Body (JObject [(''detail'', JString ''Invalid token'')]))
     = Inr (JString ''error'')"
  by (simp add: check_invoice_status_def dict_get_def)

text \<open>
  Claim C3 at a transport failure. When the provider cannot be reached,
  \<open>check_invoice_status\<close> does not return a status: the exception of the HTTP session
  leaves it, and leaves \<open>check_payment\<close> too, after the callback was answered and
  before any notice about the payment is sent. The same happens when the body is not
  JSON and when \<open>result\<close> is not an object.
\<close>

theorem transport_error_leaves_check_payment:
  "check_invoice_status Unreachable = Inl ClientError
   \<and> check_payment down_provider (day 739000) ex_callback ex_users
       = (Some ClientError, [CallbackAnswer None], ex_users)
   \<and> check_invoice_status NotJson = Inl JsonError
   \<and> check_invoice_status (Body (JObject [(''status'', JString ''error''), (''result'', JNull)]))
       = Inl AttributeError"
  by (simp add: check_payment_def check_invoice_status_def down_provider_def ex_callback_def
      getitem_def dict_get_def)

end
